theory Spec2Isabelle
  imports Complex_Main "HOL-Library.AList"
begin

section \<open>Host semantics used by \<open>gulfofmexico/builtin.py\<close>\<close>

text \<open>
  The interpreter is written in Python. Its own controlled failure is the exception
  \<open>NonFormattedError\<close>, raised with a message; every other failure is an exception of the
  host (\<open>ZeroDivisionError\<close>, \<open>ValueError\<close>, \<open>IndexError\<close>, ...), which the interpreter
  does not raise on purpose. Both kinds are values of the type \<open>error\<close>, and a function of
  the source that can raise returns \<open>error + 'a\<close>.

  Python numbers are modelled exactly: an \<open>int\<close> is an \<open>int\<close>, and a \<open>float\<close> is the
  rational number it denotes, or one of the two infinities, or NaN (the module preloads
  \<open>math.inf\<close> and \<open>math.nan\<close> as numbers). Rounding of float arithmetic and the sign of a
  zero float are outside the model. The text a finite float prints as, and the float a
  text parses to, are parameters of the functions that need them.
\<close>

datatype error =
    NonFormattedError string
  | ZeroDivisionError
  | ValueError
  | IndexError
  | OverflowError

datatype pynum = PyInt int | PyFloat rat | PyInf | PyNegInf | PyNaN

text \<open>The value of a finite number; \<open>None\<close> for an infinity and for NaN.\<close>

fun finite_val :: "pynum \<Rightarrow> rat option" where
  "finite_val (PyInt i) = Some (of_int i)"
| "finite_val (PyFloat x) = Some x"
| "finite_val PyInf = None"
| "finite_val PyNegInf = None"
| "finite_val PyNaN = None"

text \<open>
  The literal \<open>0.00000001\<close> denotes the double nearest to it, which is
  \<open>3022314549036573 / 2^78\<close>, a little more than \<open>1 / 10^8\<close>.
\<close>

definition FLOAT_TO_INT_PREC :: rat where
  "FLOAT_TO_INT_PREC = 3022314549036573 / 2 ^ 78"

text \<open>\<open>x % 1\<close>: the result has the sign of the divisor, so it is \<open>x - floor x\<close>.\<close>

definition py_mod1 :: "rat \<Rightarrow> rat" where
  "py_mod1 x = x - of_int \<lfloor>x\<rfloor>"

text \<open>\<open>x // 1\<close>.\<close>

definition py_floordiv1 :: "rat \<Rightarrow> rat" where
  "py_floordiv1 x = of_int \<lfloor>x\<rfloor>"

text \<open>
  Python's \<open>round\<close> with one argument rounds a half to the even neighbour. On an infinity
  it raises \<open>OverflowError\<close> and on NaN \<open>ValueError\<close>; the functions below say so where
  they round a number that may be one of these.
\<close>

definition py_round :: "rat \<Rightarrow> int" where
  "py_round x =
     (let f = \<lfloor>x\<rfloor>; d = x - of_int f
      in if d < 1 / 2 then f
         else if 1 / 2 < d then f + 1
         else if even f then f else f + 1)"

text \<open>
  \<open>is_int\<close> on a finite number. On an infinity or NaN \<open>x % 1\<close> is NaN and the comparison
  is false; the functions below take that branch where the number is not finite.
\<close>

definition is_int :: "rat \<Rightarrow> bool" where
  "is_int x = (min (py_mod1 x) (1 - py_mod1 x) < FLOAT_TO_INT_PREC)"

text \<open>\<open>xs[i]\<close>: a negative index counts from the end, an index out of range raises.\<close>

definition py_getitem :: "'a list \<Rightarrow> int \<Rightarrow> error + 'a" where
  "py_getitem xs i =
     (let n = int (length xs); j = (if i < 0 then i + n else i)
      in if 0 \<le> j \<and> j < n then Inr (xs ! nat j) else Inl IndexError)"

text \<open>\<open>xs[i] = v\<close>.\<close>

definition py_setitem :: "'a list \<Rightarrow> int \<Rightarrow> 'a \<Rightarrow> error + 'a list" where
  "py_setitem xs i v =
     (let n = int (length xs); j = (if i < 0 then i + n else i)
      in if 0 \<le> j \<and> j < n then Inr (xs[nat j := v]) else Inl IndexError)"

text \<open>\<open>xs[n:n] = [v]\<close>: slice bounds are clamped to the list, never an error.\<close>

definition py_slice_insert :: "'a list \<Rightarrow> int \<Rightarrow> 'a \<Rightarrow> 'a list" where
  "py_slice_insert xs n v =
     (let len = int (length xs); j = (if n < 0 then max (n + len) 0 else min n len)
      in take (nat j) xs @ [v] @ drop (nat j) xs)"

text \<open>\<open>max(ks)\<close> of a sequence: \<open>ValueError\<close> when it is empty.\<close>

fun py_max :: "rat list \<Rightarrow> error + rat" where
  "py_max [] = Inl ValueError"
| "py_max (k # ks) = Inr (fold max ks k)"

text \<open>
  A \<open>dict\<close> is an association list in insertion order with distinct keys: \<open>map_of\<close> reads
  it, \<open>AList.update\<close> overwrites the entry of a present key in place and appends a new
  key at the end, as Python does. Numeric keys are compared by value (\<open>0 == 0.0\<close>).
\<close>

type_synonym ('k, 'v) dict = "('k \<times> 'v) list"

definition dict_keys :: "('k, 'v) dict \<Rightarrow> 'k list" where
  "dict_keys d = map fst d"

definition dict_contains :: "('k, 'v) dict \<Rightarrow> 'k \<Rightarrow> bool" where
  "dict_contains d k = (k \<in> set (dict_keys d))"


section \<open>Runtime values\<close>

text \<open>
  One constructor for each value class of the source. \<open>'c\<close> is the type of the statement
  tuples a user function holds (\<open>CodeStatement\<close>, declared in the parser). A built-in
  function names its Python callable. The constructors for strings, lists and objects hold
  the fields \<open>value\<close>, \<open>values\<close> and \<open>class_name\<close>, which are all that the conversions
  read of them (the indexers and namespaces are not read there); the state of a list
  object, with its indexer, is the record \<open>list_object\<close> below.
\<close>

datatype mapkey = NumKey pynum | StrKey string

datatype 'c GulfOfMexicoValue =
    GulfOfMexicoFunction "string list" 'c bool
  | BuiltinFunction int string bool
  | GulfOfMexicoList "'c GulfOfMexicoValue list"
  | GulfOfMexicoNumber pynum
  | GulfOfMexicoString string
  | GulfOfMexicoBoolean "bool option"
  | GulfOfMexicoUndefined
  | GulfOfMexicoSpecialBlankValue
  | GulfOfMexicoObject string
  | GulfOfMexicoMap "(mapkey \<times> 'c GulfOfMexicoValue) list"
  | GulfOfMexicoKeyword string
  | GulfOfMexicoPromise "'c GulfOfMexicoValue option"


section \<open>Lists: \<open>GulfOfMexicoList\<close>\<close>

text \<open>
  The mutable state of a list object: the sequence \<open>values\<close> (the field \<open>list_values\<close>
  here), the dictionary \<open>indexer\<close> from user indices to real indices, and the number held
  by the \<open>length\<close> entry of its namespace (the entries \<open>push\<close> and \<open>pop\<close> never change).
\<close>

record 'c list_object =
  list_values :: "'c GulfOfMexicoValue list"
  indexer :: "(rat, int) dict"
  ns_length :: int

text \<open>\<open>create_namespace\<close>: sets the \<open>length\<close> entry from the current \<open>values\<close>.\<close>

definition create_namespace :: "'c list_object \<Rightarrow> 'c list_object" where
  "create_namespace self = self\<lparr>ns_length := int (length (list_values self))\<rparr>"

text \<open>
  Construction, \<open>__post_init__\<close>: the indexer maps each of \<open>range(-1, len(values) - 1)\<close>
  to itself.
\<close>

definition post_init :: "'c GulfOfMexicoValue list \<Rightarrow> 'c list_object" where
  "post_init vs =
     \<lparr>list_values = vs,
      indexer = map (\<lambda>i. (of_int i, i)) [-1 .. int (length vs) - 2],
      ns_length = int (length vs)\<rparr>"

text \<open>
  The bounds check \<open>-1 <= index.value <= len(self.values) - 1\<close> on a finite key. For an
  infinity or NaN the check fails (every comparison with NaN is false), and such a key is
  never in the indexer: both functions below raise the out-of-bounds error for it.
\<close>

definition in_list_bounds :: "'c list_object \<Rightarrow> rat \<Rightarrow> bool" where
  "in_list_bounds self k = (-1 \<le> k \<and> k \<le> of_nat (length (list_values self)) - 1)"

definition list_access_index ::
  "'c list_object \<Rightarrow> 'c GulfOfMexicoValue \<Rightarrow> error + 'c GulfOfMexicoValue" where
  "list_access_index self index =
     (case index of
        GulfOfMexicoNumber n \<Rightarrow>
          (case finite_val n of
             None \<Rightarrow> Inl (NonFormattedError ''Indexing out of list bounds.'')
           | Some k \<Rightarrow>
               if \<not> in_list_bounds self k
               then Inl (NonFormattedError ''Indexing out of list bounds.'')
               else (case map_of (indexer self) k of
                       None \<Rightarrow> Inl (NonFormattedError ''No value assigned to that index'')
                     | Some realIndex \<Rightarrow> py_getitem (list_values self) realIndex))
      | _ \<Rightarrow> Inl (NonFormattedError ''Cannot index a list with a non-number value.''))"

text \<open>
  The loop at the end of \<open>assign_index\<close>: for each key of the indexer, in order, add one
  to the real index when the key is greater than the assigned one.
\<close>

fun shift_after :: "rat \<Rightarrow> rat list \<Rightarrow> (rat, int) dict \<Rightarrow> (rat, int) dict" where
  "shift_after k [] d = d"
| "shift_after k (u # us) d =
     shift_after k us
       (if k < u
        then (case map_of d u of Some r \<Rightarrow> AList.update u (r + 1) d | None \<Rightarrow> d)
        else d)"

definition list_assign_index ::
  "'c list_object \<Rightarrow> 'c GulfOfMexicoValue \<Rightarrow> 'c GulfOfMexicoValue \<Rightarrow> error + 'c list_object" where
  "list_assign_index self index val =
     (case index of
        GulfOfMexicoNumber n \<Rightarrow>
          (case finite_val n of
             None \<Rightarrow> Inl (NonFormattedError ''Indexing out of list bounds.'')
           | Some k \<Rightarrow>
               if dict_contains (indexer self) k
               then
                 if \<not> in_list_bounds self k
                 then Inl (NonFormattedError ''Indexing out of list bounds.'')
                 else (case py_setitem (list_values self) (py_round k) val of
                         Inl e \<Rightarrow> Inl e
                       | Inr vs \<Rightarrow>
                           Inr (self\<lparr>list_values := vs,
                                     indexer := AList.update (of_int (py_round k)) (py_round k)
                                                  (indexer self)\<rparr>))
               else
                 if \<not> in_list_bounds self k
                 then Inl (NonFormattedError ''Indexing out of list bounds.'')
                 else
                   (let nearest_int_down = py_round (max (py_floordiv1 (k + 2)) 0);
                        vs = py_slice_insert (list_values self) nearest_int_down val;
                        ix = AList.update k (nearest_int_down - 1) (indexer self);
                        self' = create_namespace (self\<lparr>list_values := vs, indexer := ix\<rparr>)
                    in Inr (self'\<lparr>indexer := shift_after k (dict_keys ix) ix\<rparr>)))
      | _ \<Rightarrow> Inl (NonFormattedError ''Cannot index a list with a non-number value.''))"

text \<open>
  \<open>db_list_push\<close>, the \<open>push\<close> member of a list: the new user index is one more than the
  greatest key of the indexer and maps to \<open>len(values) - 1\<close>, read before the append.
\<close>

definition db_list_push ::
  "'c list_object \<Rightarrow> 'c GulfOfMexicoValue \<Rightarrow> error + 'c list_object" where
  "db_list_push self val =
     (case py_max (dict_keys (indexer self)) of
        Inl e \<Rightarrow> Inl e
      | Inr m \<Rightarrow>
          Inr (create_namespace
                 (self\<lparr>indexer := AList.update (m + 1) (int (length (list_values self)) - 1)
                                     (indexer self),
                       list_values := list_values self @ [val]\<rparr>)))"


section \<open>Text of numbers\<close>

text \<open>
  Characters are code points below 256. \<open>str(i)\<close> of a Python \<open>int\<close> is its decimal
  numeral, with a minus sign when negative.
\<close>

definition digit_char :: "nat \<Rightarrow> char" where
  "digit_char d = char_of (48 + d)"

definition digit_val :: "char \<Rightarrow> nat option" where
  "digit_val c =
     (let n = (of_char c :: nat) in if 48 \<le> n \<and> n \<le> 57 then Some (n - 48) else None)"

fun str_nat :: "nat \<Rightarrow> string" where
  "str_nat n =
     (if n < 10 then [digit_char n] else str_nat (n div 10) @ [digit_char (n mod 10)])"

declare str_nat.simps [simp del]

definition str_int :: "int \<Rightarrow> string" where
  "str_int i = (if i < 0 then CHR ''-'' # str_nat (nat (- i)) else str_nat (nat i))"

text \<open>
  \<open>str(x)\<close> of the payload of a number. The text of a finite float is the parameter
  \<open>fstr\<close>.
\<close>

fun str_num :: "(rat \<Rightarrow> string) \<Rightarrow> pynum \<Rightarrow> string" where
  "str_num fstr (PyInt i) = str_int i"
| "str_num fstr (PyFloat x) = fstr x"
| "str_num fstr PyInf = ''inf''"
| "str_num fstr PyNegInf = ''-inf''"
| "str_num fstr PyNaN = ''nan''"

text \<open>
  \<open>int(s)\<close> of a text: an optional sign and then one or more decimal digits; anything
  else is a \<open>ValueError\<close>. (Python also accepts blanks around the numeral and
  underscores between digits; the texts converted here are built from the text of a
  number and contain neither.)
\<close>

fun digits_val :: "string \<Rightarrow> nat \<Rightarrow> nat option" where
  "digits_val [] acc = Some acc"
| "digits_val (c # cs) acc =
     (case digit_val c of None \<Rightarrow> None | Some d \<Rightarrow> digits_val cs (10 * acc + d))"

definition unsigned_int :: "string \<Rightarrow> error + int" where
  "unsigned_int body =
     (if body = [] then Inl ValueError
      else (case digits_val body 0 of None \<Rightarrow> Inl ValueError | Some n \<Rightarrow> Inr (int n)))"

definition py_int :: "string \<Rightarrow> error + int" where
  "py_int s =
     (case s of
        [] \<Rightarrow> Inl ValueError
      | c # r \<Rightarrow>
          if c = CHR ''-'' then (case unsigned_int r of Inl e \<Rightarrow> Inl e | Inr n \<Rightarrow> Inr (- n))
          else if c = CHR ''+'' then unsigned_int r
          else unsigned_int s)"

text \<open>\<open>sep.join(xs)\<close>.\<close>

fun py_join :: "string \<Rightarrow> string list \<Rightarrow> string" where
  "py_join sep [] = []"
| "py_join sep [x] = x"
| "py_join sep (x # y # ys) = x @ sep @ py_join sep (y # ys)"

text \<open>\<open>s[:i]\<close> and \<open>s[i:]\<close>: a negative bound counts from the end, bounds are clamped.\<close>

definition py_slice_to :: "'a list \<Rightarrow> int \<Rightarrow> 'a list" where
  "py_slice_to xs i = take (nat (if i < 0 then i + int (length xs) else i)) xs"

definition py_slice_from :: "'a list \<Rightarrow> int \<Rightarrow> 'a list" where
  "py_slice_from xs i = drop (nat (if i < 0 then i + int (length xs) else i)) xs"

text \<open>\<open>s.strip()\<close>: removes the white space at both ends.\<close>

definition py_isspace :: "char \<Rightarrow> bool" where
  "py_isspace c = ((of_char c :: nat) \<in> {9, 10, 11, 12, 13, 28, 29, 30, 31, 32, 133, 160})"

definition py_strip :: "string \<Rightarrow> string" where
  "py_strip s = rev (dropWhile py_isspace (rev (dropWhile py_isspace s)))"


section \<open>Numbers: \<open>GulfOfMexicoNumber\<close>\<close>

text \<open>\<open>_get_self_str\<close>: the text of the number without the dot and the sign.\<close>

definition get_self_str :: "(rat \<Rightarrow> string) \<Rightarrow> pynum \<Rightarrow> string" where
  "get_self_str fstr v =
     filter (\<lambda>c. c \<noteq> CHR ''-'') (filter (\<lambda>c. c \<noteq> CHR ''.'') (str_num fstr v))"

definition in_number_bounds :: "string \<Rightarrow> rat \<Rightarrow> bool" where
  "in_number_bounds self_val_str k = (-1 \<le> k \<and> k \<le> of_nat (length self_val_str) - 1)"

definition number_access_index ::
  "(rat \<Rightarrow> string) \<Rightarrow> pynum \<Rightarrow> 'c GulfOfMexicoValue \<Rightarrow> error + 'c GulfOfMexicoValue" where
  "number_access_index fstr self index =
     (let self_val_str = get_self_str fstr self
      in case index of
           GulfOfMexicoNumber n \<Rightarrow>
             (case finite_val n of
                None \<Rightarrow> Inl (NonFormattedError ''Expected integer for number indexing.'')
              | Some k \<Rightarrow>
                  if \<not> is_int k
                  then Inl (NonFormattedError ''Expected integer for number indexing.'')
                  else if \<not> in_number_bounds self_val_str k
                  then Inl (NonFormattedError ''Indexing out of number bounds.'')
                  else (case py_getitem self_val_str (py_round k + 1) of
                          Inl e \<Rightarrow> Inl e
                        | Inr c \<Rightarrow>
                            (case py_int [c] of
                               Inl e \<Rightarrow> Inl e
                             | Inr d \<Rightarrow> Inr (GulfOfMexicoNumber (PyInt d)))))
         | _ \<Rightarrow> Inl (NonFormattedError ''Cannot index a number with a non-number value.''))"

text \<open>
  \<open>assign_index\<close> of a number returns the new \<open>self.value\<close>. The sign is the quotient
  \<open>self.value / abs(self.value)\<close>, computed before every check: it raises on a zero, and
  is NaN without an error on an infinity or NaN, which then is not \<open>is_int\<close>. An assigned
  value that is not finite is not \<open>is_int\<close> either. A key that is not finite is not
  \<open>is_int\<close>, and \<open>(index.value + 2) // 1\<close> is NaN, on which \<open>round\<close> raises \<open>ValueError\<close>.
\<close>

definition number_assign_index ::
  "(rat \<Rightarrow> string) \<Rightarrow> pynum \<Rightarrow> 'c GulfOfMexicoValue \<Rightarrow> 'c GulfOfMexicoValue \<Rightarrow> error + pynum" where
  "number_assign_index fstr self index val =
     (let self_val_str = get_self_str fstr self
      in case finite_val self of
           None \<Rightarrow> Inl (NonFormattedError ''Cannot assign into a non-interger number.'')
         | Some self_value \<Rightarrow>
             if \<bar>self_value\<bar> = 0 then Inl ZeroDivisionError
             else
               (let sign = self_value / \<bar>self_value\<bar>
                in if \<not> is_int self_value
                   then Inl (NonFormattedError ''Cannot assign into a non-interger number.'')
                   else
                     (case index of
                        GulfOfMexicoNumber n \<Rightarrow>
                          (case val of
                             GulfOfMexicoNumber w \<Rightarrow>
                               (case finite_val w of
                                  None \<Rightarrow>
                                    Inl (NonFormattedError
                                           ''Cannot assign into a number with a non-integer value.'')
                                | Some val_value \<Rightarrow>
                                    if \<not> is_int val_value \<or> \<not> (0 \<le> val_value \<and> val_value \<le> 9)
                                    then Inl (NonFormattedError
                                                ''Cannot assign into a number with a non-integer value.'')
                                    else
                                      (case finite_val n of
                                         None \<Rightarrow> Inl ValueError
                                       | Some k \<Rightarrow>
                                           if is_int k
                                           then
                                             if \<not> in_number_bounds self_val_str k
                                             then Inl (NonFormattedError
                                                         ''Indexing out of number bounds.'')
                                             else
                                               (let index_num = py_round k + 1
                                                in case py_int
                                                          (py_slice_to self_val_str index_num
                                                           @ str_int (py_round val_value)
                                                           @ py_slice_from self_val_str
                                                               (index_num + 1)) of
                                                     Inl e \<Rightarrow> Inl e
                                                   | Inr m \<Rightarrow> Inr (PyFloat (sign * of_int m)))
                                           else
                                             (let index_num =
                                                    py_round (max (py_floordiv1 (k + 2)) 0)
                                              in case py_int
                                                        (py_slice_to self_val_str index_num
                                                         @ str_int (py_round val_value)
                                                         @ py_slice_from self_val_str index_num) of
                                                   Inl e \<Rightarrow> Inl e
                                                 | Inr m \<Rightarrow> Inr (PyFloat (sign * of_int m)))))
                           | _ \<Rightarrow> Inl (NonFormattedError
                                         ''Cannot assign into a number with a non-integer value.''))
                      | _ \<Rightarrow> Inl (NonFormattedError
                                    ''Cannot index a number with a non-number value.''))))"


section \<open>Variables: \<open>VariableLifetime\<close> and \<open>Variable\<close>\<close>

text \<open>
  The field \<open>value\<close> of a lifetime is \<open>lt_value\<close> here. Times are seconds; the clock
  reading \<open>time.time()\<close> is the parameter \<open>now\<close> of the two functions that read it.
\<close>

record 'c VariableLifetime =
  lt_value :: "'c GulfOfMexicoValue"
  lines_left :: int
  confidence :: int
  can_be_reset :: bool
  can_edit_value :: bool
  creation_time :: rat
  is_temporal :: bool
  temporal_duration :: rat

record 'c Variable =
  var_name :: string
  lifetimes :: "'c VariableLifetime list"
  prev_values :: "'c GulfOfMexicoValue list"

text \<open>The property \<open>value\<close>: the value of the head lifetime, the observed value.\<close>

definition variable_value :: "'c Variable \<Rightarrow> error + 'c GulfOfMexicoValue" where
  "variable_value self =
     (case lifetimes self of
        [] \<Rightarrow> Inl (NonFormattedError ''Variable is undefined.'')
      | l # _ \<Rightarrow> Inr (lt_value l))"

text \<open>
  The loop of \<open>add_lifetime\<close> runs \<open>i\<close> over \<open>range(len(lifetimes) + 1)\<close> and stops at the
  first \<open>i\<close> with \<open>i == len(lifetimes)\<close> or \<open>lifetimes[i].confidence >= confidence\<close>;
  \<open>insert_index\<close> is that \<open>i\<close>.
\<close>

fun insert_index :: "'c VariableLifetime list \<Rightarrow> int \<Rightarrow> nat" where
  "insert_index [] c = 0"
| "insert_index (l # ls) c = (if c \<le> confidence l then 0 else Suc (insert_index ls c))"

definition add_lifetime ::
  "'c Variable \<Rightarrow> 'c GulfOfMexicoValue \<Rightarrow> int \<Rightarrow> int \<Rightarrow> bool \<Rightarrow> bool \<Rightarrow> bool \<Rightarrow> rat \<Rightarrow> rat
     \<Rightarrow> 'c Variable" where
  "add_lifetime self val conf duration reset edit temporal temporal_dur now =
     (let i = insert_index (lifetimes self) conf;
          prev = (case lifetimes self of
                    [] \<Rightarrow> prev_values self
                  | l # _ \<Rightarrow> if i = 0 then prev_values self @ [lt_value l]
                             else prev_values self);
          new = \<lparr>lt_value = val, lines_left = duration, confidence = conf,
                 can_be_reset = reset, can_edit_value = edit, creation_time = now,
                 is_temporal = temporal, temporal_duration = temporal_dur\<rparr>
      in self\<lparr>prev_values := prev,
               lifetimes := take i (lifetimes self) @ [new] @ drop i (lifetimes self)\<rparr>)"

text \<open>
  \<open>clear_outdated_lifetimes\<close>: the first loop collects the positions of the outdated
  lifetimes, the second deletes them from the last to the first. \<open>del xs[i]\<close> raises
  when \<open>i\<close> is out of range.
\<close>

definition outdated :: "rat \<Rightarrow> 'c VariableLifetime \<Rightarrow> bool" where
  "outdated current_time l =
     (lines_left l = 0 \<or> (is_temporal l \<and> temporal_duration l \<le> current_time - creation_time l))"

definition remove_indeces :: "rat \<Rightarrow> 'c VariableLifetime list \<Rightarrow> nat list" where
  "remove_indeces current_time ls = filter (\<lambda>i. outdated current_time (ls ! i)) [0 ..< length ls]"

fun del_indices :: "nat list \<Rightarrow> 'a list \<Rightarrow> error + 'a list" where
  "del_indices [] ls = Inr ls"
| "del_indices (i # js) ls =
     (if i < length ls then del_indices js (take i ls @ drop (Suc i) ls) else Inl IndexError)"

definition clear_outdated_lifetimes :: "'c Variable \<Rightarrow> rat \<Rightarrow> error + 'c Variable" where
  "clear_outdated_lifetimes self now =
     (case del_indices (rev (remove_indeces now (lifetimes self))) (lifetimes self) of
        Inl e \<Rightarrow> Inl e
      | Inr ls \<Rightarrow> Inr (self\<lparr>lifetimes := ls\<rparr>))"

text \<open>The order the claims about variables speak of.\<close>

definition sorted_by_confidence :: "'c VariableLifetime list \<Rightarrow> bool" where
  "sorted_by_confidence ls = sorted (map confidence ls)"

definition head_is_lowest :: "'c VariableLifetime list \<Rightarrow> bool" where
  "head_is_lowest ls =
     (case ls of [] \<Rightarrow> True | l # rest \<Rightarrow> list_all (\<lambda>m. confidence l \<le> confidence m) rest)"


section \<open>Conversions\<close>

text \<open>
  \<open>db_to_boolean\<close>. In Python \<open>a or b\<close> is \<open>a\<close> when \<open>a\<close> is true and \<open>b\<close> otherwise. A
  value of a class that the \<open>match\<close> does not name keeps the initial \<open>None\<close>. For a number
  \<open>round(val.value)\<close> is evaluated first, and raises on an infinity and on NaN.
\<close>

fun db_to_boolean :: "'c GulfOfMexicoValue \<Rightarrow> error + 'c GulfOfMexicoValue" where
  "db_to_boolean (GulfOfMexicoString s) =
     Inr (GulfOfMexicoBoolean
            (if py_strip s \<noteq> [] then Some True
             else if length s \<noteq> 0 then None else Some False))"
| "db_to_boolean (GulfOfMexicoNumber n) =
     (case finite_val n of
        None \<Rightarrow> Inl (if n = PyNaN then ValueError else OverflowError)
      | Some x \<Rightarrow>
          Inr (GulfOfMexicoBoolean
                 (if py_round x \<noteq> 0 then Some True
                  else if FLOAT_TO_INT_PREC < \<bar>x\<bar> then None else Some False)))"
| "db_to_boolean (GulfOfMexicoList vs) = Inr (GulfOfMexicoBoolean (Some (vs \<noteq> [])))"
| "db_to_boolean (GulfOfMexicoMap self_dict) =
     Inr (GulfOfMexicoBoolean (Some (self_dict \<noteq> [])))"
| "db_to_boolean (GulfOfMexicoBoolean b) = Inr (GulfOfMexicoBoolean b)"
| "db_to_boolean GulfOfMexicoUndefined = Inr (GulfOfMexicoBoolean (Some False))"
| "db_to_boolean (GulfOfMexicoFunction args code is_async) = Inr (GulfOfMexicoBoolean None)"
| "db_to_boolean (GulfOfMexicoObject class_name) = Inr (GulfOfMexicoBoolean None)"
| "db_to_boolean (GulfOfMexicoKeyword kw) = Inr (GulfOfMexicoBoolean None)"
| "db_to_boolean v = Inr (GulfOfMexicoBoolean None)"

text \<open>
  \<open>db_to_string\<close>. The text of a finite float is the parameter \<open>fstr\<close>; the text
  \<open>str(val)\<close> that Python derives for an instance of a data class, which is the result for
  a value of a class that the \<open>match\<close> does not name, is the parameter \<open>drepr\<close>. A value is
  a finite tree here: a list or map that contains itself, on which the recursion of the
  source does not end, is not a value of the datatype.
\<close>

fun str_key :: "(rat \<Rightarrow> string) \<Rightarrow> mapkey \<Rightarrow> string" where
  "str_key fstr (NumKey n) = str_num fstr n"
| "str_key fstr (StrKey s) = s"

fun to_str ::
  "(rat \<Rightarrow> string) \<Rightarrow> ('c GulfOfMexicoValue \<Rightarrow> string) \<Rightarrow> 'c GulfOfMexicoValue \<Rightarrow> string" where
  "to_str fstr drepr (GulfOfMexicoString s) = s"
| "to_str fstr drepr (GulfOfMexicoList vs) =
     ''['' @ py_join '', '' (map (to_str fstr drepr) vs) @ '']''"
| "to_str fstr drepr (GulfOfMexicoBoolean b) =
     (case b of Some True \<Rightarrow> ''true'' | None \<Rightarrow> ''maybe'' | Some False \<Rightarrow> ''false'')"
| "to_str fstr drepr (GulfOfMexicoNumber n) = str_num fstr n"
| "to_str fstr drepr (GulfOfMexicoFunction args code is_async) =
     ''<function ('' @ py_join '', '' args @ '')>''"
| "to_str fstr drepr (GulfOfMexicoObject class_name) = ''<object '' @ class_name @ ''>''"
| "to_str fstr drepr GulfOfMexicoUndefined = ''undefined''"
| "to_str fstr drepr (GulfOfMexicoKeyword kw) = kw"
| "to_str fstr drepr (GulfOfMexicoMap self_dict) =
     ''{'' @ py_join '', ''
              (map (\<lambda>(k, v). str_key fstr k @ '': '' @ to_str fstr drepr v) self_dict) @ ''}''"
| "to_str fstr drepr v = drepr v"

definition db_to_string ::
  "(rat \<Rightarrow> string) \<Rightarrow> ('c GulfOfMexicoValue \<Rightarrow> string) \<Rightarrow> 'c GulfOfMexicoValue
     \<Rightarrow> 'c GulfOfMexicoValue" where
  "db_to_string fstr drepr val = GulfOfMexicoString (to_str fstr drepr val)"

text \<open>
  \<open>db_to_number\<close>. \<open>float(s)\<close> is the parameter \<open>fparse\<close>: the float that the text denotes
  (a rational, an infinity or NaN, never a \<open>PyInt\<close>), \<open>None\<close> when Python raises
  \<open>ValueError\<close>. The number of a boolean is a float, the sum of an \<open>int\<close> and a float.
\<close>

fun db_to_number ::
  "(string \<Rightarrow> pynum option) \<Rightarrow> 'c GulfOfMexicoValue \<Rightarrow> error + 'c GulfOfMexicoValue" where
  "db_to_number fparse (GulfOfMexicoNumber n) = Inr (GulfOfMexicoNumber n)"
| "db_to_number fparse (GulfOfMexicoString s) =
     (case fparse s of
        None \<Rightarrow> Inl ValueError
      | Some x \<Rightarrow> Inr (GulfOfMexicoNumber x))"
| "db_to_number fparse GulfOfMexicoUndefined = Inr (GulfOfMexicoNumber (PyInt 0))"
| "db_to_number fparse (GulfOfMexicoBoolean b) =
     Inr (GulfOfMexicoNumber
            (PyFloat ((if b = Some True then 1 else 0) + (if b = None then 1 else 0) * (1 / 2))))"
| "db_to_number fparse (GulfOfMexicoList vs) =
     (if vs \<noteq> [] then Inl (NonFormattedError ''Cannot turn a non-empty list into a number.'')
      else Inr (GulfOfMexicoNumber (PyInt 0)))"
| "db_to_number fparse (GulfOfMexicoMap self_dict) =
     (if self_dict \<noteq> []
      then Inl (NonFormattedError ''Cannot turn a non-empty map into a number.'')
      else Inr (GulfOfMexicoNumber (PyInt 0)))"
| "db_to_number fparse (GulfOfMexicoFunction args code is_async) =
     Inl (NonFormattedError ''Cannot turn type GulfOfMexicoFunction into a number.'')"
| "db_to_number fparse (BuiltinFunction arg_count function modifies_caller) =
     Inl (NonFormattedError ''Cannot turn type BuiltinFunction into a number.'')"
| "db_to_number fparse GulfOfMexicoSpecialBlankValue =
     Inl (NonFormattedError ''Cannot turn type GulfOfMexicoSpecialBlankValue into a number.'')"
| "db_to_number fparse (GulfOfMexicoObject class_name) =
     Inl (NonFormattedError ''Cannot turn type GulfOfMexicoObject into a number.'')"
| "db_to_number fparse (GulfOfMexicoKeyword kw) =
     Inl (NonFormattedError ''Cannot turn type GulfOfMexicoKeyword into a number.'')"
| "db_to_number fparse (GulfOfMexicoPromise p) =
     Inl (NonFormattedError ''Cannot turn type GulfOfMexicoPromise into a number.'')"


text \<open>
  The composition \<open>String(Number(String(v)))\<close> of the three built-in conversions, as the
  interpreter evaluates it: an error of \<open>db_to_number\<close> ends the evaluation.
\<close>

definition string_number_string ::
  "(rat \<Rightarrow> string) \<Rightarrow> (string \<Rightarrow> pynum option) \<Rightarrow> ('c GulfOfMexicoValue \<Rightarrow> string)
     \<Rightarrow> 'c GulfOfMexicoValue \<Rightarrow> error + 'c GulfOfMexicoValue" where
  "string_number_string fstr fparse drepr v =
     (case db_to_number fparse (db_to_string fstr drepr v) of
        Inl e \<Rightarrow> Inl e
      | Inr n \<Rightarrow> Inr (db_to_string fstr drepr n))"

text \<open>
  What Python does on integers, as readings of the parameters \<open>fstr\<close> and \<open>fparse\<close>. Every
  integer of magnitude up to \<open>2^53\<close> is a float, and Python prints the float as the numeral
  of the integer followed by \<open>.0\<close> (\<open>str(5.0)\<close> is \<open>5.0\<close>): that is \<open>float_str_integral\<close>
  on such an integer. \<open>float(s)\<close> of a decimal numeral (an optional sign, digits,
  optionally a dot and digits, with a digit on one side of the dot at least) is the number
  that the numeral denotes, when that number is a float: that is \<open>float_of_decimal\<close> on
  such a numeral, and on a text without any digit, which Python rejects as well. The
  properties below apply the two readings inside these domains only.
\<close>

definition float_str_integral :: "rat \<Rightarrow> string" where
  "float_str_integral x = str_int \<lfloor>x\<rfloor> @ ''.0''"

definition float_of_decimal :: "string \<Rightarrow> pynum option" where
  "float_of_decimal s =
     (let signed = (s \<noteq> [] \<and> (hd s = CHR ''-'' \<or> hd s = CHR ''+''));
          negative = (s \<noteq> [] \<and> hd s = CHR ''-'');
          body = (if signed then tl s else s);
          whole = takeWhile (\<lambda>c. c \<noteq> CHR ''.'') body;
          fraction = drop 1 (dropWhile (\<lambda>c. c \<noteq> CHR ''.'') body)
      in if whole = [] \<and> fraction = [] then None
         else (case (digits_val whole 0, digits_val fraction 0) of
                 (Some a, Some b) \<Rightarrow>
                   Some (PyFloat ((if negative then - 1 else 1)
                                  * (of_nat a + of_nat b / 10 ^ length fraction)))
               | _ \<Rightarrow> None))"


section \<open>The table of built-in functions\<close>

datatype 'c Name = Name string "'c GulfOfMexicoValue"

definition BUILTIN_FUNCTION_KEYWORDS :: "(string, 'c Name) dict" where
  "BUILTIN_FUNCTION_KEYWORDS =
     [(''new'', Name ''new'' (BuiltinFunction 1 ''db_identity'' False)),
      (''current'', Name ''current'' (BuiltinFunction 1 ''db_identity'' False)),
      (''Map'', Name ''Map'' (BuiltinFunction 0 ''db_map'' False)),
      (''Boolean'', Name ''Boolean'' (BuiltinFunction 1 ''db_to_boolean'' False)),
      (''String'', Name ''String'' (BuiltinFunction 1 ''db_to_string'' False)),
      (''print'', Name ''print'' (BuiltinFunction (-1) ''db_print'' False)),
      (''exit'', Name ''exit'' (BuiltinFunction 0 ''db_exit'' False)),
      (''Number'', Name ''Number'' (BuiltinFunction 1 ''db_to_number'' False)),
      (''use'', Name ''use'' (BuiltinFunction 1 ''db_signal'' False)),
      (''sleep'', Name ''sleep'' (BuiltinFunction 1 ''db_sleep'' False)),
      (''read'', Name ''read'' (BuiltinFunction (-1) ''db_read'' False)),
      (''write'', Name ''write'' (BuiltinFunction (-1) ''db_write'' False)),
      (''regex_match'', Name ''regex_match'' (BuiltinFunction 1 ''db_regex_match'' False)),
      (''regex_findall'', Name ''regex_findall'' (BuiltinFunction 1 ''db_regex_findall'' False)),
      (''regex_replace'', Name ''regex_replace'' (BuiltinFunction 1 ''db_regex_replace'' False))]"

text \<open>The field \<open>arg_count\<close> of the built-in function that a table binds to a name.\<close>

definition arg_count_of :: "(string, 'c Name) dict \<Rightarrow> string \<Rightarrow> int option" where
  "arg_count_of table kw =
     (case map_of table kw of
        Some (Name _ (BuiltinFunction arg_count _ _)) \<Rightarrow> Some arg_count
      | _ \<Rightarrow> None)"


section \<open>Properties of lists\<close>

lemma update_fresh: "k \<notin> fst ` set d \<Longrightarrow> AList.update k v d = d @ [(k, v)]"
  by (induction d) auto

lemma fold_max_ge: "(k::rat) \<le> fold max ks k"
proof (induction ks arbitrary: k)
  case Nil
  show ?case by simp
next
  case (Cons a ks)
  have "k \<le> max a k" by simp
  also have "\<dots> \<le> fold max ks (max a k)" by (rule Cons.IH)
  finally show ?case by simp
qed

lemma fold_max_upper: "x \<in> set ks \<Longrightarrow> (x::rat) \<le> fold max ks k"
proof (induction ks arbitrary: k)
  case Nil
  then show ?case by simp
next
  case (Cons a ks)
  show ?case
  proof (cases "x = a")
    case True
    have "a \<le> max a k" by simp
    also have "\<dots> \<le> fold max ks (max a k)" by (rule fold_max_ge)
    finally show ?thesis using True by simp
  next
    case False
    with Cons show ?thesis by simp
  qed
qed

lemma py_max_upper: "py_max ks = Inr m \<Longrightarrow> x \<in> set ks \<Longrightarrow> x \<le> m"
  by (cases ks) (auto simp: fold_max_ge fold_max_upper)

lemma py_max_nonempty: "ks \<noteq> [] \<Longrightarrow> \<exists>m. py_max ks = Inr m"
  by (cases ks) auto

lemma push_nonempty:
  assumes "indexer self \<noteq> []"
  shows "\<exists>self' m. db_list_push self v = Inr self'
           \<and> list_values self' = list_values self @ [v]
           \<and> indexer self' = indexer self @ [(m, int (length (list_values self)) - 1)]
           \<and> (\<forall>k \<in> set (dict_keys (indexer self)). k < m)"
proof -
  from assms obtain m where m: "py_max (dict_keys (indexer self)) = Inr m"
    using py_max_nonempty [of "dict_keys (indexer self)"] by (auto simp: dict_keys_def)
  have less: "k < m + 1" if "k \<in> set (dict_keys (indexer self))" for k
    using py_max_upper [OF m that] by simp
  then have "m + 1 \<notin> fst ` set (indexer self)"
    by (auto simp: dict_keys_def)
  then have "AList.update (m + 1) (int (length (list_values self)) - 1) (indexer self)
             = indexer self @ [(m + 1, int (length (list_values self)) - 1)]"
    by (rule update_fresh)
  with m less show ?thesis
    by (auto simp: db_list_push_def create_namespace_def)
qed

lemma post_init_nonempty: "vs \<noteq> [] \<Longrightarrow> indexer (post_init vs) \<noteq> []"
  by (cases vs) (auto simp: post_init_def upto.simps)

lemma push_empty: "db_list_push (post_init []) v = Inl ValueError"
  by (simp add: db_list_push_def post_init_def dict_keys_def)

lemma keys_post_init:
  "dict_keys (indexer (post_init vs)) = map of_int [-1 .. int (length vs) - 2]"
  by (simp add: post_init_def dict_keys_def comp_def)

lemma access_out_of_bounds_iff:
  "finite_val n = Some k \<Longrightarrow>
   list_access_index self (GulfOfMexicoNumber n)
     = Inl (NonFormattedError ''Indexing out of list bounds.'')
   \<longleftrightarrow> \<not> in_list_bounds self k"
  by (auto simp: list_access_index_def py_getitem_def Let_def split: option.splits)

lemma access_not_finite:
  "finite_val n = None \<Longrightarrow>
   list_access_index self (GulfOfMexicoNumber n)
     = Inl (NonFormattedError ''Indexing out of list bounds.'')"
  by (simp add: list_access_index_def)

lemma access_one_element_first:
  "list_access_index (post_init [x]) (GulfOfMexicoNumber (PyInt (- 1))) = Inr x"
  by (simp add: list_access_index_def post_init_def in_list_bounds_def py_getitem_def
      upto.simps)

lemma access_one_element_second:
  "list_access_index (post_init [x]) (GulfOfMexicoNumber (PyInt 0))
     = Inl (NonFormattedError ''No value assigned to that index'')"
  by (simp add: list_access_index_def post_init_def in_list_bounds_def upto.simps)

text \<open>
  C1. Inserting \<open>v\<close> at the key \<open>0.5\<close> into the fresh list \<open>[a, b]\<close> splices it at position
  \<open>floor(0.5 + 2) = 2\<close>, so the sequence becomes \<open>[a, b, v]\<close>, and records the real index
  \<open>1\<close> for the key \<open>0.5\<close>. \<open>access_index\<close> reads \<open>values[realIndex]\<close> without the offset of
  one that the indexer counts with (the indexer of a fresh list maps the key \<open>-1\<close> to
  \<open>-1\<close>), so on the code reading \<open>0.5\<close> yields \<open>b\<close>, not the inserted value, reading \<open>0\<close>
  yields \<open>a\<close>, not \<open>b\<close>, and reading \<open>-1\<close> yields the last element \<open>v\<close>.
\<close>

theorem list_fractional_insert_reads:
  "list_assign_index
     (post_init [GulfOfMexicoString ''a'', GulfOfMexicoString ''b'' :: unit GulfOfMexicoValue])
     (GulfOfMexicoNumber (PyFloat (1 / 2))) (GulfOfMexicoString ''v'')
   = Inr \<lparr>list_values =
            [GulfOfMexicoString ''a'', GulfOfMexicoString ''b'', GulfOfMexicoString ''v''],
          indexer = [(- 1, - 1), (0, 0), (1 / 2, 1)], ns_length = 3\<rparr>
   \<and> list_access_index
       \<lparr>list_values =
          [GulfOfMexicoString ''a'', GulfOfMexicoString ''b'',
           GulfOfMexicoString ''v'' :: unit GulfOfMexicoValue],
        indexer = [(- 1, - 1), (0, 0), (1 / 2, 1)], ns_length = 3\<rparr>
       (GulfOfMexicoNumber (PyFloat (1 / 2)))
     = Inr (GulfOfMexicoString ''b'')
   \<and> list_access_index
       \<lparr>list_values =
          [GulfOfMexicoString ''a'', GulfOfMexicoString ''b'',
           GulfOfMexicoString ''v'' :: unit GulfOfMexicoValue],
        indexer = [(- 1, - 1), (0, 0), (1 / 2, 1)], ns_length = 3\<rparr>
       (GulfOfMexicoNumber (PyInt 0))
     = Inr (GulfOfMexicoString ''a'')
   \<and> list_access_index
       \<lparr>list_values =
          [GulfOfMexicoString ''a'', GulfOfMexicoString ''b'',
           GulfOfMexicoString ''v'' :: unit GulfOfMexicoValue],
        indexer = [(- 1, - 1), (0, 0), (1 / 2, 1)], ns_length = 3\<rparr>
       (GulfOfMexicoNumber (PyInt (- 1)))
     = Inr (GulfOfMexicoString ''v'')"
  by code_simp

text \<open>
  C3, as the code has it. The keys of the indexer of a fresh list of \<open>n\<close> elements are
  \<open>-1, 0, ..., n - 2\<close>. Indexing a one-element list at \<open>-1\<close> returns its element. Indexing
  it at \<open>0\<close> fails with the error "No value assigned to that index": the key \<open>0\<close> is
  within the bounds \<open>-1 \<le> k \<le> len(values) - 1\<close> that \<open>access_index\<close> checks, and the error
  "Indexing out of list bounds." is raised exactly for the keys outside these bounds, among
  them the infinities and NaN.
\<close>

theorem fresh_list_default_indices:
  "dict_keys (indexer (post_init vs)) = map of_int [-1 .. int (length vs) - 2]
   \<and> list_access_index (post_init [x]) (GulfOfMexicoNumber (PyInt (- 1))) = Inr x
   \<and> list_access_index (post_init [x]) (GulfOfMexicoNumber (PyInt 0))
       = Inl (NonFormattedError ''No value assigned to that index'')
   \<and> (list_access_index self (GulfOfMexicoNumber (PyInt i))
         = Inl (NonFormattedError ''Indexing out of list bounds.'')
       \<longleftrightarrow> \<not> in_list_bounds self (of_int i))
   \<and> (list_access_index self (GulfOfMexicoNumber (PyFloat r))
         = Inl (NonFormattedError ''Indexing out of list bounds.'')
       \<longleftrightarrow> \<not> in_list_bounds self r)
   \<and> list_access_index self (GulfOfMexicoNumber PyInf)
       = Inl (NonFormattedError ''Indexing out of list bounds.'')
   \<and> list_access_index self (GulfOfMexicoNumber PyNegInf)
       = Inl (NonFormattedError ''Indexing out of list bounds.'')
   \<and> list_access_index self (GulfOfMexicoNumber PyNaN)
       = Inl (NonFormattedError ''Indexing out of list bounds.'')"
  using keys_post_init [of vs] access_one_element_first [of x] access_one_element_second [of x]
    access_out_of_bounds_iff [of "PyInt i" "of_int i" self]
    access_out_of_bounds_iff [of "PyFloat r" r self]
    access_not_finite [of PyInf self] access_not_finite [of PyNegInf self]
    access_not_finite [of PyNaN self]
  by simp

text \<open>
  C3, as the specification has it, fails: indexing the one-element list at \<open>0\<close> does not
  fail with the out-of-bounds error.
\<close>

theorem one_element_list_index_zero_not_out_of_bounds:
  "list_access_index (post_init [GulfOfMexicoUndefined :: unit GulfOfMexicoValue])
     (GulfOfMexicoNumber (PyInt 0))
   \<noteq> Inl (NonFormattedError ''Indexing out of list bounds.'')"
  by code_simp

text \<open>
  C10. \<open>push\<close> on a freshly constructed empty list raises the host's \<open>ValueError\<close>, since
  the indexer has no key to take the maximum of. A fresh list of at least one element has
  a non-empty indexer, and on every list with a non-empty indexer \<open>push\<close> succeeds,
  appends the value to the sequence and adds one key to the indexer, greater than every
  key that was there.
\<close>

theorem db_list_push_empty_raises_nonempty_appends:
  "db_list_push (post_init []) v = Inl ValueError
   \<and> (vs \<noteq> [] \<longrightarrow> indexer (post_init vs) \<noteq> [])
   \<and> (indexer self \<noteq> [] \<longrightarrow>
        (\<exists>self' m. db_list_push self v = Inr self'
           \<and> list_values self' = list_values self @ [v]
           \<and> indexer self' = indexer self @ [(m, int (length (list_values self)) - 1)]
           \<and> (\<forall>k \<in> set (dict_keys (indexer self)). k < m)))"
  using push_empty post_init_nonempty push_nonempty by blast

theorem db_list_push_empty_raises_nonempty_appends_witness:
  "[GulfOfMexicoUndefined :: unit GulfOfMexicoValue] \<noteq> []
   \<and> indexer (post_init [GulfOfMexicoUndefined :: unit GulfOfMexicoValue]) \<noteq> []
   \<and> (\<exists>self'. db_list_push (post_init [GulfOfMexicoUndefined :: unit GulfOfMexicoValue])
                 (GulfOfMexicoBoolean None) = Inr self'
          \<and> list_values self' = [GulfOfMexicoUndefined, GulfOfMexicoBoolean None])"
proof -
  have h: "indexer (post_init [GulfOfMexicoUndefined :: unit GulfOfMexicoValue]) \<noteq> []"
    by (simp add: post_init_def upto.simps)
  have v: "list_values (post_init [GulfOfMexicoUndefined :: unit GulfOfMexicoValue])
             = [GulfOfMexicoUndefined]"
    by (simp add: post_init_def)
  from db_list_push_empty_raises_nonempty_appends
         [of "GulfOfMexicoBoolean None" "[GulfOfMexicoUndefined :: unit GulfOfMexicoValue]"
             "post_init [GulfOfMexicoUndefined :: unit GulfOfMexicoValue]"] h v
  show ?thesis by auto
qed


section \<open>Properties of variables\<close>

lemma insert_index_le: "insert_index ls c \<le> length ls"
  by (induction ls) auto

lemma insert_index_stops:
  "insert_index ls c = length ls \<or> c \<le> confidence (ls ! insert_index ls c)"
  by (induction ls) auto

lemma insert_index_first: "j < insert_index ls c \<Longrightarrow> confidence (ls ! j) < c"
proof (induction ls arbitrary: j)
  case Nil
  then show ?case by simp
next
  case (Cons l ls)
  then show ?case by (cases j) (auto split: if_splits)
qed

lemma insert_sorted:
  "sorted (map confidence ls) \<Longrightarrow> confidence new = c \<Longrightarrow>
   sorted (map confidence (take (insert_index ls c) ls @ [new] @ drop (insert_index ls c) ls))"
proof (induction ls)
  case Nil
  then show ?case by simp
next
  case (Cons l ls)
  show ?case
  proof (cases "c \<le> confidence l")
    case True
    with Cons.prems show ?thesis by auto
  next
    case False
    with Cons show ?thesis by (auto dest: in_set_takeD in_set_dropD)
  qed
qed

lemma sorted_head_lowest: "sorted (map confidence ls) \<Longrightarrow> head_is_lowest ls"
  by (cases ls) (auto simp: head_is_lowest_def list_all_iff)

lemma remove_indeces_snoc:
  "remove_indeces t (xs @ [x]) = remove_indeces t xs @ (if outdated t x then [length xs] else [])"
  by (auto simp: remove_indeces_def nth_append intro: filter_cong)

lemma del_indices_filter:
  "del_indices (rev (remove_indeces t xs)) (xs @ ys) = Inr (filter (\<lambda>l. \<not> outdated t l) xs @ ys)"
proof (induction xs arbitrary: ys rule: rev_induct)
  case Nil
  then show ?case by (simp add: remove_indeces_def)
next
  case (snoc x xs)
  show ?case
  proof (cases "outdated t x")
    case True
    then show ?thesis using snoc [of ys] by (simp add: remove_indeces_snoc)
  next
    case False
    then show ?thesis using snoc [of "x # ys"] by (simp add: remove_indeces_snoc)
  qed
qed

lemma clear_outdated_filter:
  "clear_outdated_lifetimes self t = Inr (self\<lparr>lifetimes := filter (\<lambda>l. \<not> outdated t l) (lifetimes self)\<rparr>)"
  using del_indices_filter [of t "lifetimes self" "[]"] by (simp add: clear_outdated_lifetimes_def)


lemma add_lifetime_lifetimes:
  "lifetimes (add_lifetime self val conf duration reset edit temporal tdur now)
     = take (insert_index (lifetimes self) conf) (lifetimes self)
       @ \<lparr>lt_value = val, lines_left = duration, confidence = conf,
            can_be_reset = reset, can_edit_value = edit, creation_time = now,
            is_temporal = temporal, temporal_duration = tdur\<rparr>
       # drop (insert_index (lifetimes self) conf) (lifetimes self)"
  by (simp add: add_lifetime_def Let_def)

lemma add_lifetime_prev:
  "prev_values (add_lifetime self val conf duration reset edit temporal tdur now)
     = (if insert_index (lifetimes self) conf = 0 \<and> lifetimes self \<noteq> []
        then prev_values self @ [lt_value (hd (lifetimes self))] else prev_values self)"
  by (cases "lifetimes self") (simp_all add: add_lifetime_def Let_def)

lemma add_lifetime_sorted:
  "sorted_by_confidence (lifetimes self) \<Longrightarrow>
   sorted_by_confidence (lifetimes (add_lifetime self val conf duration reset edit temporal tdur now))"
proof -
  assume a: "sorted_by_confidence (lifetimes self)"
  let ?new = "\<lparr>lt_value = val, lines_left = duration, confidence = conf,
                can_be_reset = reset, can_edit_value = edit, creation_time = now,
                is_temporal = temporal, temporal_duration = tdur\<rparr>"
  have c: "confidence ?new = conf" by simp
  from a have "sorted (map confidence (lifetimes self))"
    by (simp add: sorted_by_confidence_def)
  from insert_sorted [OF this c] show ?thesis
    by (simp add: sorted_by_confidence_def add_lifetime_lifetimes)
qed

lemma add_lifetime_tie:
  "lifetimes self \<noteq> [] \<Longrightarrow>
   variable_value (add_lifetime self val (confidence (hd (lifetimes self))) duration reset edit
                     temporal tdur now) = Inr val"
  by (cases "lifetimes self") (simp_all add: variable_value_def add_lifetime_lifetimes)

lemma add_lifetime_greater:
  "lifetimes self \<noteq> [] \<Longrightarrow> confidence (hd (lifetimes self)) < conf \<Longrightarrow>
   variable_value (add_lifetime self val conf duration reset edit temporal tdur now)
     = variable_value self"
  by (cases "lifetimes self") (simp_all add: variable_value_def add_lifetime_lifetimes)

lemma clear_outdated_sorted:
  "sorted_by_confidence (lifetimes self) \<Longrightarrow>
   \<exists>cleared. clear_outdated_lifetimes self t = Inr cleared
      \<and> lifetimes cleared = filter (\<lambda>l. \<not> outdated t l) (lifetimes self)
      \<and> sorted_by_confidence (lifetimes cleared) \<and> head_is_lowest (lifetimes cleared)"
  by (simp add: clear_outdated_filter sorted_by_confidence_def sorted_filter sorted_head_lowest)

text \<open>
  C2. \<open>add_lifetime\<close> inserts the new lifetime at the first position \<open>i\<close> that is the length
  of the list or holds a lifetime of at least the new confidence, and appends the value of
  the previous head to \<open>prev_values\<close> exactly when \<open>i\<close> is \<open>0\<close> and the list was not empty.
  When the lifetimes are sorted by confidence they are still sorted, with the head of
  lowest confidence, after \<open>add_lifetime\<close> and after \<open>clear_outdated_lifetimes\<close> (which
  succeeds and keeps exactly the lifetimes that are not outdated); an insertion with the
  confidence of the head becomes the observed value, and an insertion with a greater
  confidence leaves the observed value unchanged.
\<close>

theorem add_lifetime_ordered_insert:
  "(let ls = lifetimes self;
        i = insert_index ls conf;
        self' = add_lifetime self val conf duration reset edit temporal tdur now
    in i \<le> length ls
       \<and> (i = length ls \<or> conf \<le> confidence (ls ! i))
       \<and> (\<forall>j < i. confidence (ls ! j) < conf)
       \<and> lifetimes self'
           = take i ls
             @ \<lparr>lt_value = val, lines_left = duration, confidence = conf,
                  can_be_reset = reset, can_edit_value = edit, creation_time = now,
                  is_temporal = temporal, temporal_duration = tdur\<rparr>
             # drop i ls
       \<and> prev_values self'
           = (if i = 0 \<and> ls \<noteq> [] then prev_values self @ [lt_value (hd ls)]
              else prev_values self)
       \<and> (sorted_by_confidence ls \<longrightarrow>
             sorted_by_confidence (lifetimes self') \<and> head_is_lowest (lifetimes self')
             \<and> (\<exists>cleared. clear_outdated_lifetimes self t = Inr cleared
                   \<and> lifetimes cleared = filter (\<lambda>l. \<not> outdated t l) ls
                   \<and> sorted_by_confidence (lifetimes cleared)
                   \<and> head_is_lowest (lifetimes cleared)))
       \<and> (ls \<noteq> [] \<longrightarrow>
             variable_value (add_lifetime self val (confidence (hd ls)) duration reset edit
                               temporal tdur now) = Inr val)
       \<and> (ls \<noteq> [] \<and> confidence (hd ls) < conf \<longrightarrow>
             variable_value self' = variable_value self))"
  unfolding Let_def
  using insert_index_le [of "lifetimes self" conf]
    insert_index_stops [of "lifetimes self" conf]
    insert_index_first [of _ "lifetimes self" conf]
    add_lifetime_lifetimes [of self val conf duration reset edit temporal tdur now]
    add_lifetime_prev [of self val conf duration reset edit temporal tdur now]
    add_lifetime_sorted [of self val conf duration reset edit temporal tdur now]
    clear_outdated_sorted [of self t]
    add_lifetime_tie [of self val duration reset edit temporal tdur now]
    add_lifetime_greater [of self conf val duration reset edit temporal tdur now]
    sorted_head_lowest [of "lifetimes (add_lifetime self val conf duration reset edit temporal tdur now)"]
  unfolding sorted_by_confidence_def
  by blast


theorem add_lifetime_ordered_insert_witness:
  "(let low = \<lparr>lt_value = GulfOfMexicoString ''low'' :: unit GulfOfMexicoValue, lines_left = 5,
                confidence = 1, can_be_reset = True, can_edit_value = True, creation_time = 0,
                is_temporal = False, temporal_duration = 0\<rparr>;
        high = \<lparr>lt_value = GulfOfMexicoString ''high'' :: unit GulfOfMexicoValue, lines_left = 0,
                 confidence = 3, can_be_reset = True, can_edit_value = True, creation_time = 0,
                 is_temporal = False, temporal_duration = 0\<rparr>;
        x = \<lparr>var_name = ''x'', lifetimes = [low, high], prev_values = []\<rparr>;
        x' = add_lifetime x (GulfOfMexicoString ''new'') 2 7 True True False 0 10
    in sorted_by_confidence (lifetimes x)
       \<and> lifetimes x \<noteq> []
       \<and> confidence (hd (lifetimes x)) < 2
       \<and> sorted_by_confidence (lifetimes x') \<and> head_is_lowest (lifetimes x')
       \<and> variable_value x' = variable_value x
       \<and> variable_value (add_lifetime x (GulfOfMexicoString ''new'')
                           (confidence (hd (lifetimes x))) 7 True True False 0 10)
           = Inr (GulfOfMexicoString ''new'')
       \<and> (\<exists>cleared. clear_outdated_lifetimes x 10 = Inr cleared
              \<and> head_is_lowest (lifetimes cleared)))"
proof -
  let ?low = "\<lparr>lt_value = GulfOfMexicoString ''low'' :: unit GulfOfMexicoValue, lines_left = 5,
                confidence = 1, can_be_reset = True, can_edit_value = True, creation_time = 0,
                is_temporal = False, temporal_duration = 0\<rparr>"
  let ?high = "\<lparr>lt_value = GulfOfMexicoString ''high'' :: unit GulfOfMexicoValue, lines_left = 0,
                 confidence = 3, can_be_reset = True, can_edit_value = True, creation_time = 0,
                 is_temporal = False, temporal_duration = 0\<rparr>"
  let ?x = "\<lparr>var_name = ''x'', lifetimes = [?low, ?high], prev_values = []\<rparr>"
  have h1: "sorted_by_confidence (lifetimes ?x)"
    by (simp add: sorted_by_confidence_def)
  have h2: "lifetimes ?x \<noteq> []"
    by simp
  have h3: "confidence (hd (lifetimes ?x)) < 2"
    by simp
  from add_lifetime_ordered_insert
         [of ?x 2 "GulfOfMexicoString ''new''" 7 True True False 0 10 10] h1 h2 h3
  show ?thesis
    unfolding Let_def by blast
qed


section \<open>Properties of the conversions and of the table of built-in functions\<close>

lemma digit_val_digit_char: "d < 10 \<Longrightarrow> digit_val (digit_char d) = Some d"
  by (simp add: digit_val_def digit_char_def)

lemma digit_char_plain:
  "d < 10 \<Longrightarrow>
   digit_char d \<noteq> CHR ''.'' \<and> digit_char d \<noteq> CHR ''-'' \<and> digit_char d \<noteq> CHR ''+''"
proof -
  assume d: "d < 10"
  have "of_char (digit_char d) = 48 + d"
    using d by (simp add: digit_char_def)
  then show ?thesis by auto
qed

lemma str_nat_small: "n < 10 \<Longrightarrow> str_nat n = [digit_char n]"
  by (subst str_nat.simps) simp

lemma str_nat_big: "\<not> n < 10 \<Longrightarrow> str_nat n = str_nat (n div 10) @ [digit_char (n mod 10)]"
  by (subst str_nat.simps) simp

lemma str_nat_digits: "c \<in> set (str_nat n) \<Longrightarrow> \<exists>d < 10. c = digit_char d"
proof (induction n rule: str_nat.induct)
  case (1 n)
  show ?case
  proof (cases "n < 10")
    case True
    with 1 show ?thesis by (auto simp: str_nat_small)
  next
    case False
    have "n mod 10 < 10" by simp
    with False 1 show ?thesis
      by (auto simp: str_nat_big simp del: mod_less_divisor)
  qed
qed

lemma str_nat_plain:
  assumes "c \<in> set (str_nat n)"
  shows "c \<noteq> CHR ''.'' \<and> c \<noteq> CHR ''-'' \<and> c \<noteq> CHR ''+''"
proof -
  from str_nat_digits [OF assms] obtain d where "d < 10" and "c = digit_char d"
    by blast
  then show ?thesis using digit_char_plain [of d] by simp
qed

lemma str_nat_nonempty: "str_nat n \<noteq> []"
  by (cases "n < 10") (simp_all add: str_nat_small str_nat_big)

lemma digits_val_append:
  "digits_val (xs @ ys) acc
     = (case digits_val xs acc of None \<Rightarrow> None | Some a \<Rightarrow> digits_val ys a)"
  by (induction xs arbitrary: acc) (auto split: option.splits)

lemma digits_val_str_nat: "digits_val (str_nat n) 0 = Some n"
proof (induction n rule: str_nat.induct)
  case (1 n)
  show ?case
  proof (cases "n < 10")
    case True
    then show ?thesis by (simp add: str_nat_small digit_val_digit_char)
  next
    case False
    have "n mod 10 < 10" by simp
    then have d: "digit_val (digit_char (n mod 10)) = Some (n mod 10)"
      by (rule digit_val_digit_char)
    from False show ?thesis
      by (simp add: str_nat_big digits_val_append "1.IH" d)
  qed
qed

lemma float_of_decimal_parts:
  assumes "body = (if s \<noteq> [] \<and> (hd s = CHR ''-'' \<or> hd s = CHR ''+'') then tl s else s)"
    and "takeWhile (\<lambda>c. c \<noteq> CHR ''.'') body = w"
    and "drop 1 (dropWhile (\<lambda>c. c \<noteq> CHR ''.'') body) = f"
    and "w \<noteq> []"
    and "digits_val w 0 = Some a"
    and "digits_val f 0 = Some b"
  shows "float_of_decimal s
           = Some (PyFloat ((if s \<noteq> [] \<and> hd s = CHR ''-'' then - 1 else 1)
                            * (of_nat a + of_nat b / 10 ^ length f)))"
  unfolding float_of_decimal_def Let_def assms(1) [symmetric] assms(2) assms(3)
  using assms(4,5,6) by simp

lemma float_of_decimal_numeral:
  assumes "pre = [] \<or> pre = ''-''" and "suf = [] \<or> suf = ''.0''"
  shows "float_of_decimal (pre @ str_nat n @ suf)
           = Some (PyFloat ((if pre = ''-'' then - 1 else 1) * of_nat n))"
proof -
  let ?b = "str_nat n"
  let ?P = "\<lambda>c. c \<noteq> CHR ''.''"
  let ?s = "pre @ ?b @ suf"
  have ne: "?b \<noteq> []" by (rule str_nat_nonempty)
  then have "hd ?b \<in> set ?b" by simp
  then have hd: "hd ?b \<noteq> CHR ''-''" "hd ?b \<noteq> CHR ''+''"
    using str_nat_plain by blast+
  have all: "\<forall>c \<in> set ?b. ?P c"
    using str_nat_plain by blast
  have body: "?b @ suf = (if ?s \<noteq> [] \<and> (hd ?s = CHR ''-'' \<or> hd ?s = CHR ''+'') then tl ?s else ?s)"
  proof (cases "pre = []")
    case True
    with ne hd show ?thesis by simp
  next
    case False
    with assms(1) have "pre = ''-''" by simp
    then show ?thesis by simp
  qed
  have tw: "takeWhile ?P (?b @ suf) = ?b"
  proof (cases "suf = []")
    case True
    with all show ?thesis by simp
  next
    case False
    with assms(2) have "suf = ''.0''" by simp
    with all show ?thesis by (simp add: takeWhile_append2)
  qed
  have d0: "dropWhile ?P ?b = []"
    using all by (rule dropWhile_eq_Nil_conv [THEN iffD2])
  have dw: "drop 1 (dropWhile ?P (?b @ suf)) = (if suf = [] then [] else ''0'')"
  proof (cases "suf = []")
    case True
    have "drop 1 (dropWhile ?P (?b @ [])) = []"
      by (simp only: append_Nil2 d0 drop_Nil)
    with True show ?thesis by simp
  next
    case False
    with assms(2) have "suf = ''.0''" by simp
    with all show ?thesis by (simp add: dropWhile_append2)
  qed
  have z: "digits_val (if suf = [] then [] else ''0'') 0 = Some 0"
    by (simp add: digit_val_def)
  have dv: "digits_val ?b 0 = Some n" by (rule digits_val_str_nat)
  have sign: "(?s \<noteq> [] \<and> hd ?s = CHR ''-'') = (pre = ''-'')"
  proof (cases "pre = []")
    case True
    with ne hd show ?thesis by simp
  next
    case False
    with assms(1) have "pre = ''-''" by simp
    then show ?thesis by simp
  qed
  from float_of_decimal_parts [OF body tw dw ne dv z]
  show ?thesis
    unfolding sign by simp
qed

lemma float_of_decimal_str_int:
  "float_of_decimal (str_int i) = Some (PyFloat (of_int i))"
  "float_of_decimal (str_int i @ ''.0'') = Some (PyFloat (of_int i))"
proof -
  show "float_of_decimal (str_int i) = Some (PyFloat (of_int i))"
  proof (cases "i < 0")
    case True
    then show ?thesis
      using float_of_decimal_numeral [of "''-''" "[]" "nat (- i)"]
      by (simp add: str_int_def)
  next
    case False
    then show ?thesis
      using float_of_decimal_numeral [of "[]" "[]" "nat i"]
      by (simp add: str_int_def)
  qed
  show "float_of_decimal (str_int i @ ''.0'') = Some (PyFloat (of_int i))"
  proof (cases "i < 0")
    case True
    then show ?thesis
      using float_of_decimal_numeral [of "''-''" "''.0''" "nat (- i)"]
      by (simp add: str_int_def)
  next
    case False
    then show ?thesis
      using float_of_decimal_numeral [of "[]" "''.0''" "nat i"]
      by (simp add: str_int_def)
  qed
qed

lemma float_str_integral_of_int: "float_str_integral (of_int i) = str_int i @ ''.0''"
  by (simp add: float_str_integral_def)


lemma strip_all_space: "list_all py_isspace s \<Longrightarrow> py_strip s = []"
proof -
  assume "list_all py_isspace s"
  then have d: "dropWhile py_isspace s = []"
    by (induction s) auto
  show ?thesis unfolding py_strip_def d by simp
qed

lemma strip_space: "py_strip '' '' = []"
  by (simp add: py_strip_def py_isspace_def)

lemma round_zero: "py_round 0 = 0"
  by (simp add: py_round_def)






text \<open>
  C5, as the code has it. Let \<open>i\<close> be an integer of magnitude up to \<open>2^53\<close>. For the number
  that holds \<open>i\<close> as a Python \<open>int\<close>, \<open>db_to_string\<close> yields the numeral of \<open>i\<close> and
  \<open>String(Number(String(v)))\<close> yields the numeral followed by \<open>.0\<close>, a different string,
  since \<open>db_to_number\<close> turns every string into a float. For the number that holds \<open>i\<close> as
  a float, \<open>db_to_string\<close> yields the numeral followed by \<open>.0\<close> and the composition yields
  the same string. Applied to the numeral followed by \<open>.0\<close>, the composition returns it
  unchanged.
\<close>

theorem string_number_string_round_trip:
  "\<bar>i\<bar> \<le> 2 ^ 53 \<Longrightarrow>
   db_to_string float_str_integral drepr (GulfOfMexicoNumber (PyInt i))
     = GulfOfMexicoString (str_int i)
   \<and> string_number_string float_str_integral float_of_decimal drepr
         (GulfOfMexicoNumber (PyInt i))
     = Inr (GulfOfMexicoString (str_int i @ ''.0''))
   \<and> str_int i @ ''.0'' \<noteq> str_int i
   \<and> db_to_string float_str_integral drepr (GulfOfMexicoNumber (PyFloat (of_int i)))
     = GulfOfMexicoString (str_int i @ ''.0'')
   \<and> string_number_string float_str_integral float_of_decimal drepr
         (GulfOfMexicoNumber (PyFloat (of_int i)))
     = Inr (GulfOfMexicoString (str_int i @ ''.0''))
   \<and> string_number_string float_str_integral float_of_decimal drepr
         (GulfOfMexicoString (str_int i @ ''.0''))
     = Inr (GulfOfMexicoString (str_int i @ ''.0''))"
  by (simp add: string_number_string_def db_to_string_def float_of_decimal_str_int
      float_str_integral_of_int)

theorem string_number_string_round_trip_witness:
  "\<bar>- 12 :: int\<bar> \<le> 2 ^ 53
   \<and> db_to_string float_str_integral (\<lambda>v. [])
         (GulfOfMexicoNumber (PyInt (- 12)) :: unit GulfOfMexicoValue)
       = GulfOfMexicoString ''-12''
   \<and> string_number_string float_str_integral float_of_decimal (\<lambda>v. [])
         (GulfOfMexicoNumber (PyInt (- 12)) :: unit GulfOfMexicoValue)
       = Inr (GulfOfMexicoString ''-12.0'')
   \<and> string_number_string float_str_integral float_of_decimal (\<lambda>v. [])
         (GulfOfMexicoNumber (PyFloat (- 12)) :: unit GulfOfMexicoValue)
       = Inr (GulfOfMexicoString ''-12.0'')
   \<and> string_number_string float_str_integral float_of_decimal (\<lambda>v. [])
         (GulfOfMexicoString ''-12.0'' :: unit GulfOfMexicoValue)
       = Inr (GulfOfMexicoString ''-12.0'')"
proof -
  have h: "\<bar>- 12 :: int\<bar> \<le> 2 ^ 53" by simp
  have s: "str_int (- 12) = ''-12''" by code_simp
  from string_number_string_round_trip
         [OF h, where drepr = "\<lambda>v :: unit GulfOfMexicoValue. []"]
  show ?thesis
    using h by (simp add: s)
qed

text \<open>
  C5, as the specification has it, fails: for the number holding the \<open>int\<close> \<open>5\<close> the
  composition yields \<open>5.0\<close>, and \<open>db_to_string\<close> alone yields \<open>5\<close>.
\<close>

theorem int_number_string_round_trip_differs:
  "string_number_string float_str_integral float_of_decimal (\<lambda>v. [])
     (GulfOfMexicoNumber (PyInt 5) :: unit GulfOfMexicoValue)
   = Inr (GulfOfMexicoString ''5.0'')
   \<and> db_to_string float_str_integral (\<lambda>v. [])
       (GulfOfMexicoNumber (PyInt 5) :: unit GulfOfMexicoValue)
     = GulfOfMexicoString ''5''"
  by code_simp

text \<open>
  C7. Under \<open>db_to_boolean\<close> the empty string is false; a non-empty string of white space
  only, such as a single space, is maybe; a number equal to zero is false; a number whose
  absolute value exceeds \<open>FLOAT_TO_INT_PREC\<close> and which rounds to zero is maybe; every
  function, object and keyword is maybe.
\<close>

theorem db_to_boolean_matrix:
  "db_to_boolean (GulfOfMexicoString []) = Inr (GulfOfMexicoBoolean (Some False))
   \<and> (s \<noteq> [] \<and> list_all py_isspace s
        \<longrightarrow> db_to_boolean (GulfOfMexicoString s) = Inr (GulfOfMexicoBoolean None))
   \<and> db_to_boolean (GulfOfMexicoString '' '') = Inr (GulfOfMexicoBoolean None)
   \<and> (finite_val n = Some 0
        \<longrightarrow> db_to_boolean (GulfOfMexicoNumber n) = Inr (GulfOfMexicoBoolean (Some False)))
   \<and> (finite_val m = Some x \<and> FLOAT_TO_INT_PREC < \<bar>x\<bar> \<and> py_round x = 0
        \<longrightarrow> db_to_boolean (GulfOfMexicoNumber m) = Inr (GulfOfMexicoBoolean None))
   \<and> db_to_boolean (GulfOfMexicoFunction args code is_async) = Inr (GulfOfMexicoBoolean None)
   \<and> db_to_boolean (GulfOfMexicoObject class_name) = Inr (GulfOfMexicoBoolean None)
   \<and> db_to_boolean (GulfOfMexicoKeyword kw) = Inr (GulfOfMexicoBoolean None)"
  by (simp add: strip_all_space strip_space round_zero FLOAT_TO_INT_PREC_def)

theorem db_to_boolean_matrix_witness:
  "(''  '' \<noteq> [] \<and> list_all py_isspace ''  '')
   \<and> db_to_boolean (GulfOfMexicoString ''  '' :: unit GulfOfMexicoValue)
       = Inr (GulfOfMexicoBoolean None)
   \<and> finite_val (PyFloat 0) = Some 0
   \<and> db_to_boolean (GulfOfMexicoNumber (PyFloat 0) :: unit GulfOfMexicoValue)
       = Inr (GulfOfMexicoBoolean (Some False))
   \<and> (finite_val (PyFloat (1 / 4)) = Some (1 / 4) \<and> FLOAT_TO_INT_PREC < \<bar>1 / 4\<bar>
        \<and> py_round (1 / 4) = 0)
   \<and> db_to_boolean (GulfOfMexicoNumber (PyFloat (1 / 4)) :: unit GulfOfMexicoValue)
       = Inr (GulfOfMexicoBoolean None)"
proof -
  have h1: "''  '' \<noteq> [] \<and> list_all py_isspace ''  ''"
    by (simp add: py_isspace_def)
  have h2: "finite_val (PyFloat 0) = Some 0"
    by simp
  have h3: "finite_val (PyFloat (1 / 4)) = Some (1 / 4) \<and> FLOAT_TO_INT_PREC < \<bar>1 / 4\<bar>
            \<and> py_round (1 / 4) = 0"
    by code_simp
  from db_to_boolean_matrix
         [where s = "''  ''" and n = "PyFloat 0" and m = "PyFloat (1 / 4)" and x = "1 / 4"]
    h1 h2 h3
  show ?thesis by simp
qed

text \<open>
  C8, as the code has it. The table binds \<open>read\<close> and \<open>write\<close>, like \<open>print\<close>, to built-in
  functions whose \<open>arg_count\<close> is the sentinel \<open>-1\<close>.
\<close>

theorem builtin_table_arities:
  "arg_count_of BUILTIN_FUNCTION_KEYWORDS ''read'' = Some (- 1)
   \<and> arg_count_of BUILTIN_FUNCTION_KEYWORDS ''write'' = Some (- 1)
   \<and> arg_count_of BUILTIN_FUNCTION_KEYWORDS ''print'' = Some (- 1)"
  by (simp add: arg_count_of_def BUILTIN_FUNCTION_KEYWORDS_def)

text \<open>C8, as the specification has it, fails: the arity of \<open>read\<close> is not \<open>1\<close>.\<close>

theorem read_arity_not_one:
  "arg_count_of (BUILTIN_FUNCTION_KEYWORDS :: (string, unit Name) dict) ''read'' \<noteq> Some 1"
  by (simp add: arg_count_of_def BUILTIN_FUNCTION_KEYWORDS_def)


section \<open>Properties of numbers\<close>

text \<open>
  C6. The text of \<open>123\<close> has three digits, at the keys \<open>-1, 0, 1\<close>, and \<open>access_index\<close>
  yields \<open>1, 2, 3\<close> there. The key \<open>2\<close> is integral and passes the bounds check
  \<open>-1 <= 2 <= len("123") - 1\<close>, whose upper bound is one too large: there is no digit at
  that key, and on the code \<open>self_val_str[3]\<close> raises the host's \<open>IndexError\<close> instead of
  a digit or of the controlled error.
\<close>

theorem number_index_last_key_raises:
  "number_access_index (\<lambda>x. []) (PyInt 123) (GulfOfMexicoNumber (PyInt 2) :: unit GulfOfMexicoValue)
     = Inl IndexError
   \<and> in_number_bounds (get_self_str (\<lambda>x. []) (PyInt 123)) 2
   \<and> number_access_index (\<lambda>x. []) (PyInt 123)
         (GulfOfMexicoNumber (PyInt (- 1)) :: unit GulfOfMexicoValue)
       = Inr (GulfOfMexicoNumber (PyInt 1))
   \<and> number_access_index (\<lambda>x. []) (PyInt 123)
         (GulfOfMexicoNumber (PyInt 0) :: unit GulfOfMexicoValue)
       = Inr (GulfOfMexicoNumber (PyInt 2))
   \<and> number_access_index (\<lambda>x. []) (PyInt 123)
         (GulfOfMexicoNumber (PyInt 1) :: unit GulfOfMexicoValue)
       = Inr (GulfOfMexicoNumber (PyInt 3))"
  by code_simp

text \<open>
  C9. \<open>assign_index\<close> on a number whose value is zero raises the host's
  \<open>ZeroDivisionError\<close>, whatever the index and the assigned value are.
\<close>

theorem number_assign_index_zero_divides:
  "finite_val self = Some 0 \<Longrightarrow> number_assign_index fstr self index val = Inl ZeroDivisionError"
  by (simp add: number_assign_index_def)

theorem number_assign_index_zero_divides_witness:
  "finite_val (PyInt 0) = Some 0
   \<and> number_assign_index (\<lambda>x. []) (PyInt 0) (GulfOfMexicoNumber (PyInt 0))
       (GulfOfMexicoNumber (PyInt 5) :: unit GulfOfMexicoValue) = Inl ZeroDivisionError"
  using number_assign_index_zero_divides
          [of "PyInt 0" "\<lambda>x. []" "GulfOfMexicoNumber (PyInt 0)"
              "GulfOfMexicoNumber (PyInt 5) :: unit GulfOfMexicoValue"]
  by simp

end
